theory Spec2Isabelle
  imports Main
begin

section \<open>Python values\<close>

text \<open>
  The values that travel as metadata and as decoded JSON: \<^verbatim>\<open>None\<close>, booleans, integers,
  floats, strings, lists and dictionaries. The client never computes with a float (it only
  forwards metadata and reads scores off hits), so the carrier of floats is the type
  parameter \<open>'f\<close>.
\<close>

datatype 'f pyval =
    PNone
  | PBool bool
  | PInt int
  | PFloat 'f
  | PStr string
  | PList "'f pyval list"
  | PDict "(string \<times> 'f pyval) list"

text \<open>\<^verbatim>\<open>isinstance(metadata, dict) or isinstance(metadata, list)\<close>\<close>

fun isinstance_dict :: "'f pyval \<Rightarrow> bool" where
  "isinstance_dict (PDict _) = True"
| "isinstance_dict _ = False"

fun isinstance_list :: "'f pyval \<Rightarrow> bool" where
  "isinstance_list (PList _) = True"
| "isinstance_list _ = False"

text \<open>Python truthiness of a value (\<^verbatim>\<open>bool(v)\<close>).\<close>

fun truthy :: "('f::zero) pyval \<Rightarrow> bool" where
  "truthy PNone = False"
| "truthy (PBool b) = b"
| "truthy (PInt i) = (i \<noteq> 0)"
| "truthy (PFloat x) = (x \<noteq> 0)"
| "truthy (PStr s) = (s \<noteq> [])"
| "truthy (PList xs) = (xs \<noteq> [])"
| "truthy (PDict kvs) = (kvs \<noteq> [])"

section \<open>Wire types\<close>

text \<open>
  Modelled from the spec: the request and response classes come from
  \<^verbatim>\<open>nludb.types.embedding_index\<close>, which the module star-imports and which is not part of
  it. The specification calls them thin value objects mirroring wire payloads. Each request
  has the fields that the constructor calls in \<^verbatim>\<open>embedding_index.py\<close> name, a field that a
  call leaves out holding \<^verbatim>\<open>None\<close>; an item has the content fields of the specification's
  data model, and a hit its score, value and metadata.
\<close>

record 'f IndexItem =
  item_value :: "string option"
  item_fileId :: "string option"
  item_blockId :: "string option"
  item_spanId :: "string option"
  item_externalId :: "string option"
  item_externalType :: "string option"
  item_metadata :: "'f pyval"

record 'f IndexInsertRequest =
  ins_indexId :: "'f pyval"
  ins_value :: "string option"
  ins_items :: "'f IndexItem list option"
  ins_fileId :: "string option"
  ins_blockType :: "string option"
  ins_externalId :: "string option"
  ins_externalType :: "string option"
  ins_metadata :: "'f pyval"
  ins_reindex :: bool

record ListItemsRequest_fields =
  li_fileId :: "string option"
  li_blockId :: "string option"
  li_spanId :: "string option"

record IndexSearchRequest_fields =
  sr_query :: "string option"
  sr_queries :: "string list option"
  sr_k :: int
  sr_includeMetadata :: bool

record 'f IndexCreateRequest =
  cr_name :: string
  cr_model :: string
  cr_upsert :: bool
  cr_externalId :: "string option"
  cr_externalType :: "string option"
  cr_metadata :: "'f pyval"

text \<open>The payload of a post: one constructor for each request class the module builds.\<close>

datatype 'f request =
    InsertReq "'f IndexInsertRequest"
  | IndexEmbedRequest "'f pyval"
  | IndexSnapshotRequest "'f pyval"
  | ListSnapshotsRequest "'f pyval"
  | ListItemsRequest "'f pyval" ListItemsRequest_fields
  | DeleteSnapshotsRequest string
  | IndexDeleteRequest "'f pyval"
  | IndexSearchRequest "'f pyval" IndexSearchRequest_fields
  | CreateReq "'f IndexCreateRequest"

record 'f Hit =
  score :: 'f
  hit_value :: string
  hit_metadata :: "'f pyval"

text \<open>
  What a decoded response carries in \<^verbatim>\<open>.data\<close>. A post without \<^verbatim>\<open>expect\<close> (as in
  \<^verbatim>\<open>create\<close>) yields the raw dictionary; \<^verbatim>\<open>search\<close> reads \<^verbatim>\<open>.data.hits\<close>; the other
  shapes are objects of the class named by \<^verbatim>\<open>expect\<close>.
\<close>

datatype 'f data =
    DictData "(string \<times> 'f pyval) list"
  | SearchData "'f Hit list"
  | ItemsData "'f IndexItem list"
  | SnapshotsData "string list"
  | ObjData "string option" "(string \<times> 'f pyval) list"

record 'f NludbResponse =
  task :: "string option"
  data :: "'f data"

datatype error =
    RemoteRequestError int string
  | AttributeError string

text \<open>
  The arguments of one \<^verbatim>\<open>post\<close> call. A class passed as \<^verbatim>\<open>expect\<close> is identified by
  its name; an argument the call does not pass is \<open>None\<close>.
\<close>

record 'f post_call =
  route :: string
  payload :: "'f request"
  expect :: "string option"
  asynchronous :: "bool option"
  spaceId :: "string option"
  spaceHandle :: "string option"

section \<open>The transport collaborator\<close>

text \<open>
  \<^verbatim>\<open>ApiBase.post\<close> is the external collaborator. It is a parameter of every operation: a
  function of the client object \<open>'c\<close> it is called on, of the call, and of the state \<open>'w\<close>
  of everything outside the handle (connection, server). It returns either the failure it
  raises or the decoded response, and the new outside state.
\<close>

type_synonym ('f, 'c, 'w) transport =
  "'c \<Rightarrow> 'f post_call \<Rightarrow> 'w \<Rightarrow> (error + 'f NludbResponse) \<times> 'w"

text \<open>\<^verbatim>\<open>json.dumps\<close> is the standard library's; it is a parameter as well.\<close>

type_synonym 'f dumps = "'f pyval \<Rightarrow> string"

section \<open>The index handle\<close>

record ('f, 'c) EmbeddingIndex =
  nludb :: 'c
  name :: string
  id_h :: "'f pyval"

text \<open>
  A method runs on the heap object \<^verbatim>\<open>self\<close> and on the outside world; both are in the
  state it takes and returns.
\<close>

record ('f, 'c, 'w) state =
  self :: "('f, 'c) EmbeddingIndex"
  world :: 'w

text \<open>\<^verbatim>\<open>self.nludb.post(...)\<close>: the collaborator is called on the handle's client.\<close>

definition self_post ::
  "('f, 'c, 'w) transport \<Rightarrow> 'f post_call \<Rightarrow> ('f, 'c, 'w) state
    \<Rightarrow> (error + 'f NludbResponse) \<times> ('f, 'c, 'w) state" where
  "self_post post c s =
     (case post (nludb (self s)) c (world s) of (r, w') \<Rightarrow> (r, s\<lparr>world := w'\<rparr>))"

text \<open>
  Modelled from the spec: \<^verbatim>\<open>metadata_to_str\<close> is imported from the types package and is
  not part of this module. The specification says of \<^verbatim>\<open>insert\<close> that structured metadata
  (a mapping or a sequence) is serialized before transmission; nothing is said to happen to
  other metadata.
\<close>

definition metadata_to_str :: "'f dumps \<Rightarrow> 'f pyval \<Rightarrow> 'f pyval" where
  "metadata_to_str json_dumps m =
     (if isinstance_dict m \<or> isinstance_list m then PStr (json_dumps m) else m)"

text \<open>
  Modelled from the spec: \<^verbatim>\<open>IndexItem.clone_for_insert\<close> belongs to the types package. The
  specification's data model gives an item its content fields and metadata that is
  serialized to a string encoding when structured; the clone is that item.
\<close>

definition clone_for_insert :: "'f dumps \<Rightarrow> 'f IndexItem \<Rightarrow> 'f IndexItem" where
  "clone_for_insert json_dumps item =
     item\<lparr>item_metadata :=
       (if isinstance_dict (item_metadata item) \<or> isinstance_list (item_metadata item)
        then PStr (json_dumps (item_metadata item)) else item_metadata item)\<rparr>"

text \<open>\<^verbatim>\<open>IndexItem(value=item)\<close>\<close>

definition IndexItem_of_value :: "string \<Rightarrow> 'f IndexItem" where
  "IndexItem_of_value v =
     \<lparr>item_value = Some v, item_fileId = None, item_blockId = None, item_spanId = None,
      item_externalId = None, item_externalType = None, item_metadata = PNone\<rparr>"

text \<open>An element of the argument of \<^verbatim>\<open>insert_many\<close>: \<^verbatim>\<open>Union[IndexItem, str]\<close>.\<close>

datatype 'f item_arg = Str string | Item "'f IndexItem"

subsection \<open>insert\_file\<close>

definition insert_file ::
  "'f dumps \<Rightarrow> ('f, 'c, 'w) transport \<Rightarrow> string option \<Rightarrow> string option \<Rightarrow> string option
    \<Rightarrow> string option \<Rightarrow> 'f pyval \<Rightarrow> bool \<Rightarrow> string option \<Rightarrow> string option
    \<Rightarrow> ('f, 'c, 'w) state \<Rightarrow> (error + 'f NludbResponse) \<times> ('f, 'c, 'w) state" where
  "insert_file json_dumps post fileId blockType externalId externalType metadata reindex
       spaceId' spaceHandle' s =
     (let metadata' =
            (if isinstance_dict metadata \<or> isinstance_list metadata
             then PStr (json_dumps metadata) else metadata);
          req = InsertReq
            \<lparr>ins_indexId = id_h (self s), ins_value = None, ins_items = None,
             ins_fileId = fileId, ins_blockType = blockType, ins_externalId = externalId,
             ins_externalType = externalType, ins_metadata = metadata',
             ins_reindex = reindex\<rparr>
      in self_post post
           \<lparr>route = ''embedding-index/insert'', payload = req,
            expect = Some ''IndexInsertResponse'', asynchronous = None,
            spaceId = spaceId', spaceHandle = spaceHandle'\<rparr> s)"

subsection \<open>insert\_many\<close>

fun normalize_item :: "'f item_arg \<Rightarrow> 'f IndexItem" where
  "normalize_item (Str v) = IndexItem_of_value v"
| "normalize_item (Item i) = i"

definition insert_many ::
  "'f dumps \<Rightarrow> ('f, 'c, 'w) transport \<Rightarrow> 'f item_arg list \<Rightarrow> bool \<Rightarrow> string option
    \<Rightarrow> string option \<Rightarrow> ('f, 'c, 'w) state
    \<Rightarrow> (error + 'f NludbResponse) \<times> ('f, 'c, 'w) state" where
  "insert_many json_dumps post items reindex spaceId' spaceHandle' s =
     (let newItems = map normalize_item items;
          req = InsertReq
            \<lparr>ins_indexId = id_h (self s), ins_value = None,
             ins_items = Some (map (clone_for_insert json_dumps) newItems),
             ins_fileId = None, ins_blockType = None, ins_externalId = None,
             ins_externalType = None, ins_metadata = PNone, ins_reindex = reindex\<rparr>
      in self_post post
           \<lparr>route = ''embedding-index/insert'', payload = req,
            expect = Some ''IndexInsertResponse'', asynchronous = None,
            spaceId = spaceId', spaceHandle = spaceHandle'\<rparr> s)"

subsection \<open>insert\<close>

definition insert_value ::
  "'f dumps \<Rightarrow> ('f, 'c, 'w) transport \<Rightarrow> string \<Rightarrow> string option \<Rightarrow> string option
    \<Rightarrow> 'f pyval \<Rightarrow> bool \<Rightarrow> string option \<Rightarrow> string option
    \<Rightarrow> ('f, 'c, 'w) state \<Rightarrow> (error + 'f NludbResponse) \<times> ('f, 'c, 'w) state" where
  "insert_value json_dumps post value externalId externalType metadata reindex
       spaceId' spaceHandle' s =
     (let req = InsertReq
            \<lparr>ins_indexId = id_h (self s), ins_value = Some value, ins_items = None,
             ins_fileId = None, ins_blockType = None, ins_externalId = externalId,
             ins_externalType = externalType,
             ins_metadata = metadata_to_str json_dumps metadata, ins_reindex = reindex\<rparr>
      in self_post post
           \<lparr>route = ''embedding-index/insert'', payload = req,
            expect = Some ''IndexInsertResponse'', asynchronous = None,
            spaceId = spaceId', spaceHandle = spaceHandle'\<rparr> s)"

subsection \<open>embed, create\_snapshot, list\_snapshots\<close>

definition embed ::
  "('f, 'c, 'w) transport \<Rightarrow> string option \<Rightarrow> string option
    \<Rightarrow> ('f, 'c, 'w) state \<Rightarrow> (error + 'f NludbResponse) \<times> ('f, 'c, 'w) state" where
  "embed post spaceId' spaceHandle' s =
     (let req = IndexEmbedRequest (id_h (self s))
      in self_post post
           \<lparr>route = ''embedding-index/embed'', payload = req,
            expect = Some ''IndexEmbedRequest'', asynchronous = Some True,
            spaceId = spaceId', spaceHandle = spaceHandle'\<rparr> s)"

definition create_snapshot ::
  "('f, 'c, 'w) transport \<Rightarrow> string option \<Rightarrow> string option
    \<Rightarrow> ('f, 'c, 'w) state \<Rightarrow> (error + 'f NludbResponse) \<times> ('f, 'c, 'w) state" where
  "create_snapshot post spaceId' spaceHandle' s =
     (let req = IndexSnapshotRequest (id_h (self s))
      in self_post post
           \<lparr>route = ''embedding-index/snapshot/create'', payload = req,
            expect = Some ''IndexSnapshotRequest'', asynchronous = Some True,
            spaceId = spaceId', spaceHandle = spaceHandle'\<rparr> s)"

definition list_snapshots ::
  "('f, 'c, 'w) transport \<Rightarrow> string option \<Rightarrow> string option
    \<Rightarrow> ('f, 'c, 'w) state \<Rightarrow> (error + 'f NludbResponse) \<times> ('f, 'c, 'w) state" where
  "list_snapshots post spaceId' spaceHandle' s =
     (let req = ListSnapshotsRequest (id_h (self s))
      in self_post post
           \<lparr>route = ''embedding-index/snapshot/list'', payload = req,
            expect = Some ''ListSnapshotsResponse'', asynchronous = None,
            spaceId = spaceId', spaceHandle = spaceHandle'\<rparr> s)"

subsection \<open>list\_items, delete\_snapshot, delete\<close>

definition list_items ::
  "('f, 'c, 'w) transport \<Rightarrow> string option \<Rightarrow> string option \<Rightarrow> string option
    \<Rightarrow> string option \<Rightarrow> string option
    \<Rightarrow> ('f, 'c, 'w) state \<Rightarrow> (error + 'f NludbResponse) \<times> ('f, 'c, 'w) state" where
  "list_items post fileId blockId spanId spaceId' spaceHandle' s =
     (let req = ListItemsRequest (id_h (self s))
            \<lparr>li_fileId = fileId, li_blockId = blockId, li_spanId = spanId\<rparr>
      in self_post post
           \<lparr>route = ''embedding-index/listItems'', payload = req,
            expect = Some ''ListItemsResponse'', asynchronous = None,
            spaceId = spaceId', spaceHandle = spaceHandle'\<rparr> s)"

definition delete_snapshot ::
  "('f, 'c, 'w) transport \<Rightarrow> string \<Rightarrow> string option \<Rightarrow> string option
    \<Rightarrow> ('f, 'c, 'w) state \<Rightarrow> (error + 'f NludbResponse) \<times> ('f, 'c, 'w) state" where
  "delete_snapshot post snapshot_id spaceId' spaceHandle' s =
     (let req = DeleteSnapshotsRequest snapshot_id
      in self_post post
           \<lparr>route = ''embedding-index/snapshot/delete'', payload = req,
            expect = Some ''DeleteSnapshotsResponse'', asynchronous = None,
            spaceId = spaceId', spaceHandle = spaceHandle'\<rparr> s)"

definition delete ::
  "('f, 'c, 'w) transport \<Rightarrow> string option \<Rightarrow> string option
    \<Rightarrow> ('f, 'c, 'w) state \<Rightarrow> (error + 'f NludbResponse) \<times> ('f, 'c, 'w) state" where
  "delete post spaceId' spaceHandle' s =
     (let req = IndexDeleteRequest (id_h (self s))
      in self_post post
           \<lparr>route = ''embedding-index/delete'', payload = req,
            expect = Some ''IndexDeleteResponse'', asynchronous = None,
            spaceId = spaceId', spaceHandle = spaceHandle'\<rparr> s)"

subsection \<open>search\<close>

text \<open>The query argument: \<^verbatim>\<open>Union[str, List[str]]\<close>.\<close>

datatype query_arg = Query string | Queries "string list"

text \<open>
  What \<^verbatim>\<open>search\<close> returns: the response of the post, or the frame
  \<^verbatim>\<open>pd.DataFrame(rows, columns=[...])\<close>. The import of pandas is taken to succeed.
\<close>

datatype 'f search_result =
    Response "'f NludbResponse"
  | DataFrame "('f \<times> string) list" "string list"

text \<open>The request built by the \<^verbatim>\<open>if type(query) == list\<close> branches.\<close>

definition search_req :: "'f pyval \<Rightarrow> query_arg \<Rightarrow> int \<Rightarrow> bool \<Rightarrow> 'f request" where
  "search_req index_id query k includeMetadata =
     (case query of
        Queries qs \<Rightarrow> IndexSearchRequest index_id
          \<lparr>sr_query = None, sr_queries = Some qs, sr_k = k,
           sr_includeMetadata = includeMetadata\<rparr>
      | Query q \<Rightarrow> IndexSearchRequest index_id
          \<lparr>sr_query = Some q, sr_queries = None, sr_k = k,
           sr_includeMetadata = includeMetadata\<rparr>)"

definition search ::
  "('f, 'c, 'w) transport \<Rightarrow> query_arg \<Rightarrow> int \<Rightarrow> bool \<Rightarrow> 'f pyval \<Rightarrow> string option
    \<Rightarrow> string option \<Rightarrow> ('f, 'c, 'w) state
    \<Rightarrow> (error + 'f search_result) \<times> ('f, 'c, 'w) state" where
  "search post query k includeMetadata pd spaceId' spaceHandle' s =
     (let req = search_req (id_h (self s)) query k includeMetadata
      in case self_post post
           \<lparr>route = ''embedding-index/search'', payload = req,
            expect = Some ''IndexSearchResponse'', asynchronous = None,
            spaceId = spaceId', spaceHandle = spaceHandle'\<rparr> s of
           (Inl e, s') \<Rightarrow> (Inl e, s')
         | (Inr ret, s') \<Rightarrow>
             if pd = PBool False then (Inr (Response ret), s')
             else (case data ret of
                     SearchData hits \<Rightarrow>
                       (Inr (DataFrame (map (\<lambda>hit. (score hit, hit_value hit)) hits)
                               [''Score'', ''Value'']), s')
                   | _ \<Rightarrow> (Inl (AttributeError ''hits''), s')))"

subsection \<open>create\<close>

text \<open>
  The static constructor: it has no \<^verbatim>\<open>self\<close>; the client object is an argument.
  \<^verbatim>\<open>res.data.get("id", None)\<close> reads the raw dictionary of the response.
\<close>

definition create ::
  "('f, 'c, 'w) transport \<Rightarrow> 'c \<Rightarrow> string \<Rightarrow> string \<Rightarrow> bool \<Rightarrow> string option
    \<Rightarrow> string option \<Rightarrow> 'f pyval \<Rightarrow> string option \<Rightarrow> string option \<Rightarrow> 'w
    \<Rightarrow> (error + ('f, 'c) EmbeddingIndex) \<times> 'w" where
  "create post nludb' name' model upsert externalId externalType metadata
       spaceId' spaceHandle' w =
     (let req =
            \<lparr>cr_name = name', cr_model = model, cr_upsert = upsert,
             cr_externalId = externalId, cr_externalType = externalType,
             cr_metadata = metadata\<rparr>
      in case post nludb'
           \<lparr>route = ''embedding-index/create'', payload = CreateReq req,
            expect = None, asynchronous = None,
            spaceId = spaceId', spaceHandle = spaceHandle'\<rparr> w of
           (Inl e, w') \<Rightarrow> (Inl e, w')
         | (Inr res, w') \<Rightarrow>
             (case data res of
                DictData d \<Rightarrow>
                  (Inr \<lparr>nludb = nludb', name = cr_name req,
                        id_h = (case map_of d ''id'' of Some v \<Rightarrow> v | None \<Rightarrow> PNone)\<rparr>,
                   w')
              | _ \<Rightarrow> (Inl (AttributeError ''get''), w')))"

section \<open>Collaborators for the scenarios\<close>

text \<open>A collaborator that answers every call with \<open>r\<close> and keeps a log of the calls.\<close>

definition recording_post ::
  "(error + 'f NludbResponse) \<Rightarrow> ('f, 'c, 'f post_call list) transport" where
  "recording_post r cl c log = (r, log @ [c])"

subsection \<open>The mock server\<close>

text \<open>
  Modelled from the spec: the server is not part of this repository; the specification
  tests the statements about server behaviour against a mock collaborator, and this is
  that mock. It holds the ids of the existing indexes, the items stored under each index,
  the snapshots with the index each belongs to, and a supply of ids still to assign. A
  request sent to a route that does not take it is a bad request; a request that names
  an index that does not exist fails with "not found"; \<^verbatim>\<open>delete\<close>
  removes the index and the data associated with it; \<^verbatim>\<open>listItems\<close> filters by the
  conjunction of the identifiers given; \<^verbatim>\<open>search\<close> ranks the stored values by descending
  score, for a batch one query after the other. The workspace scope, the \<^verbatim>\<open>reindex\<close>
  flag, the block type and index names are opaque to the mock.
\<close>

record 'f mock_server =
  indexes :: "'f pyval list"
  stored :: "('f pyval \<times> 'f IndexItem) list"
  snapshots :: "(string \<times> 'f pyval) list"
  fresh :: "string list"

definition not_found :: error where
  "not_found = RemoteRequestError 404 ''not found''"

definition reply :: "'f post_call \<Rightarrow> 'f data \<Rightarrow> 'f NludbResponse" where
  "reply c d = \<lparr>task = (if asynchronous c = Some True then Some ''task'' else None), data = d\<rparr>"

definition ack :: "'f post_call \<Rightarrow> 'f NludbResponse" where
  "ack c = reply c (ObjData (expect c) [])"

text \<open>The items an insert request describes: its batch, or the one item of its own fields.\<close>

definition request_items :: "'f IndexInsertRequest \<Rightarrow> 'f IndexItem list" where
  "request_items r =
     (case ins_items r of
        Some items \<Rightarrow> items
      | None \<Rightarrow>
          [\<lparr>item_value = ins_value r, item_fileId = ins_fileId r, item_blockId = None,
            item_spanId = None, item_externalId = ins_externalId r,
            item_externalType = ins_externalType r, item_metadata = ins_metadata r\<rparr>])"

fun agrees :: "string option \<Rightarrow> string option \<Rightarrow> bool" where
  "agrees None _ = True"
| "agrees (Some x) y = (y = Some x)"

definition matches :: "ListItemsRequest_fields \<Rightarrow> 'f IndexItem \<Rightarrow> bool" where
  "matches f it =
     (agrees (li_fileId f) (item_fileId it) \<and> agrees (li_blockId f) (item_blockId it)
      \<and> agrees (li_spanId f) (item_spanId it))"

definition candidate ::
  "(string \<Rightarrow> string \<Rightarrow> 'f) \<Rightarrow> bool \<Rightarrow> string \<Rightarrow> 'f IndexItem \<Rightarrow> 'f Hit option" where
  "candidate scorer md q it =
     (case item_value it of
        None \<Rightarrow> None
      | Some v \<Rightarrow>
          Some \<lparr>score = scorer q v, hit_value = v,
                hit_metadata = (if md then item_metadata it else PNone)\<rparr>)"

definition ranked ::
  "(string \<Rightarrow> string \<Rightarrow> 'f::linorder) \<Rightarrow> 'f IndexItem list \<Rightarrow> IndexSearchRequest_fields
    \<Rightarrow> string \<Rightarrow> 'f Hit list" where
  "ranked scorer its f q =
     take (nat (sr_k f))
       (rev (sort_key score (List.map_filter (candidate scorer (sr_includeMetadata f) q) its)))"

text \<open>The route on which the server takes each kind of request.\<close>

fun route_of :: "'f request \<Rightarrow> string" where
  "route_of (InsertReq _) = ''embedding-index/insert''"
| "route_of (IndexEmbedRequest _) = ''embedding-index/embed''"
| "route_of (IndexSnapshotRequest _) = ''embedding-index/snapshot/create''"
| "route_of (ListSnapshotsRequest _) = ''embedding-index/snapshot/list''"
| "route_of (ListItemsRequest _ _) = ''embedding-index/listItems''"
| "route_of (DeleteSnapshotsRequest _) = ''embedding-index/snapshot/delete''"
| "route_of (IndexDeleteRequest _) = ''embedding-index/delete''"
| "route_of (IndexSearchRequest _ _) = ''embedding-index/search''"
| "route_of (CreateReq _) = ''embedding-index/create''"

definition mock_post ::
  "(string \<Rightarrow> string \<Rightarrow> 'f::linorder) \<Rightarrow> ('f, 'c, 'f mock_server) transport" where
  "mock_post scorer cl c m =
     (if route c \<noteq> route_of (payload c)
      then (Inl (RemoteRequestError 400 ''bad request''), m)
      else case payload c of
        InsertReq r \<Rightarrow>
          if ins_indexId r \<in> set (indexes m)
          then (Inr (ack c),
                m\<lparr>stored := stored m @ map (Pair (ins_indexId r)) (request_items r)\<rparr>)
          else (Inl not_found, m)
      | IndexEmbedRequest i \<Rightarrow>
          if i \<in> set (indexes m) then (Inr (ack c), m) else (Inl not_found, m)
      | IndexSnapshotRequest i \<Rightarrow>
          if i \<in> set (indexes m)
          then (case fresh m of
                  [] \<Rightarrow> (Inl (RemoteRequestError 500 ''no id left''), m)
                | sn # rest \<Rightarrow>
                    (Inr (ack c), m\<lparr>snapshots := snapshots m @ [(sn, i)], fresh := rest\<rparr>))
          else (Inl not_found, m)
      | ListSnapshotsRequest i \<Rightarrow>
          if i \<in> set (indexes m)
          then (Inr (reply c (SnapshotsData (map fst (filter (\<lambda>p. snd p = i) (snapshots m))))), m)
          else (Inl not_found, m)
      | ListItemsRequest i f \<Rightarrow>
          if i \<in> set (indexes m)
          then (Inr (reply c (ItemsData
                  (filter (matches f) (map snd (filter (\<lambda>p. fst p = i) (stored m)))))), m)
          else (Inl not_found, m)
      | DeleteSnapshotsRequest sn \<Rightarrow>
          if sn \<in> set (map fst (snapshots m))
          then (Inr (ack c), m\<lparr>snapshots := filter (\<lambda>p. fst p \<noteq> sn) (snapshots m)\<rparr>)
          else (Inl not_found, m)
      | IndexDeleteRequest i \<Rightarrow>
          if i \<in> set (indexes m)
          then (Inr (ack c),
                m\<lparr>indexes := removeAll i (indexes m),
                  stored := filter (\<lambda>p. fst p \<noteq> i) (stored m),
                  snapshots := filter (\<lambda>p. snd p \<noteq> i) (snapshots m)\<rparr>)
          else (Inl not_found, m)
      | IndexSearchRequest i f \<Rightarrow>
          if i \<in> set (indexes m)
          then (let its = map snd (filter (\<lambda>p. fst p = i) (stored m))
                in (Inr (reply c (SearchData
                     (case sr_queries f of
                        Some qs \<Rightarrow> concat (map (ranked scorer its f) qs)
                      | None \<Rightarrow>
                          (case sr_query f of
                             Some q \<Rightarrow> ranked scorer its f q
                           | None \<Rightarrow> [])))), m))
          else (Inl not_found, m)
      | CreateReq r \<Rightarrow>
          (case fresh m of
             [] \<Rightarrow> (Inl (RemoteRequestError 500 ''no id left''), m)
           | i # rest \<Rightarrow>
               (Inr (reply c (DictData [(''id'', PStr i)])),
                m\<lparr>indexes := indexes m @ [PStr i], fresh := rest\<rparr>)))"

section \<open>Scenario data and auxiliary notions\<close>

text \<open>A handle for the index \<^verbatim>\<open>idx_1\<close> named \<^verbatim>\<open>docs\<close>, with integers standing for floats.\<close>

definition docs_handle :: "(int, unit) EmbeddingIndex" where
  "docs_handle = \<lparr>nludb = (), name = ''docs'', id_h = PStr ''idx_1''\<rparr>"

text \<open>A successful answer to a search: two hits, the first with metadata.\<close>

definition two_hits :: "int Hit list" where
  "two_hits =
     [\<lparr>score = 9, hit_value = ''a'', hit_metadata = PStr ''[1, 2]''\<rparr>,
      \<lparr>score = 4, hit_value = ''b'', hit_metadata = PNone\<rparr>]"

definition found :: "error + int NludbResponse" where
  "found = Inr \<lparr>task = Some ''task_1'', data = SearchData two_hits\<rparr>"

text \<open>
  A scorer for the mock, a stand-in for \<^verbatim>\<open>json.dumps\<close>, and a server with two indexes:
  three file items and a snapshot under \<^verbatim>\<open>idx_1\<close>, one item and a snapshot under
  \<^verbatim>\<open>idx_2\<close>.
\<close>

definition flat_score :: "string \<Rightarrow> string \<Rightarrow> int" where
  "flat_score q v = (if q = v then 1 else 0)"

definition no_dumps :: "int dumps" where
  "no_dumps v = ''[]''"

definition file_item :: "string \<Rightarrow> string \<Rightarrow> int IndexItem" where
  "file_item f b =
     \<lparr>item_value = None, item_fileId = Some f, item_blockId = Some b, item_spanId = None,
      item_externalId = None, item_externalType = None, item_metadata = PNone\<rparr>"

definition two_index_server :: "int mock_server" where
  "two_index_server =
     \<lparr>indexes = [PStr ''idx_1'', PStr ''idx_2''],
      stored = [(PStr ''idx_1'', file_item ''f1'' ''b1''), (PStr ''idx_1'', file_item ''f1'' ''b2''),
                (PStr ''idx_2'', file_item ''f1'' ''b1''), (PStr ''idx_1'', file_item ''f2'' ''b1'')],
      snapshots = [(''snap_1'', PStr ''idx_1''), (''snap_2'', PStr ''idx_2'')],
      fresh = [''id_3'']\<rparr>"






subsection \<open>Sequences of method calls\<close>

text \<open>
  A call of one of the ten methods with its arguments (the workspace selectors apart), and
  the run of a list of such calls through one handle, each on the state the previous one
  left. The outcomes are collected in order; a response is wrapped like the plain result
  of \<^verbatim>\<open>search\<close>.
\<close>

datatype 'f method_call =
    InsertFile "string option" "string option" "string option" "string option" "'f pyval" bool
  | InsertMany "'f item_arg list" bool
  | Insert string "string option" "string option" "'f pyval" bool
  | Embed
  | CreateSnapshot
  | ListSnapshots
  | ListItems "string option" "string option" "string option"
  | DeleteSnapshot string
  | Delete
  | Search query_arg int bool "'f pyval"

definition as_result ::
  "(error + 'f NludbResponse) \<times> 's \<Rightarrow> (error + 'f search_result) \<times> 's" where
  "as_result out = (case out of (Inl e, s) \<Rightarrow> (Inl e, s) | (Inr r, s) \<Rightarrow> (Inr (Response r), s))"

fun invoke ::
  "'f dumps \<Rightarrow> ('f, 'c, 'w) transport \<Rightarrow> 'f method_call \<Rightarrow> string option \<Rightarrow> string option
    \<Rightarrow> ('f, 'c, 'w) state \<Rightarrow> (error + 'f search_result) \<times> ('f, 'c, 'w) state" where
  "invoke d p (InsertFile fileId bt eid et md re) sid sh s =
     as_result (insert_file d p fileId bt eid et md re sid sh s)"
| "invoke d p (InsertMany items re) sid sh s = as_result (insert_many d p items re sid sh s)"
| "invoke d p (Insert v eid et md re) sid sh s =
     as_result (insert_value d p v eid et md re sid sh s)"
| "invoke d p Embed sid sh s = as_result (embed p sid sh s)"
| "invoke d p CreateSnapshot sid sh s = as_result (create_snapshot p sid sh s)"
| "invoke d p ListSnapshots sid sh s = as_result (list_snapshots p sid sh s)"
| "invoke d p (ListItems f b sp) sid sh s = as_result (list_items p f b sp sid sh s)"
| "invoke d p (DeleteSnapshot sn) sid sh s = as_result (delete_snapshot p sn sid sh s)"
| "invoke d p Delete sid sh s = as_result (delete p sid sh s)"
| "invoke d p (Search q k md pd) sid sh s = search p q k md pd sid sh s"

fun run ::
  "'f dumps \<Rightarrow> ('f, 'c, 'w) transport
    \<Rightarrow> ('f method_call \<times> string option \<times> string option) list
    \<Rightarrow> ('f, 'c, 'w) state \<Rightarrow> (error + 'f search_result) list \<times> ('f, 'c, 'w) state" where
  "run d p [] s = ([], s)"
| "run d p ((m, sid, sh) # cs) s =
     (case invoke d p m sid sh s of
        (out, s') \<Rightarrow> (case run d p cs s' of (outs, s'') \<Rightarrow> (out # outs, s'')))"

text \<open>
  The methods whose request carries the id of the handle's index: all but
  \<^verbatim>\<open>delete_snapshot\<close>, whose request holds the snapshot id alone.
\<close>

fun sends_index_id :: "'f method_call \<Rightarrow> bool" where
  "sends_index_id (DeleteSnapshot _) = False"
| "sends_index_id _ = True"

text \<open>The index of the handle does not exist on the mock server.\<close>

definition gone :: "('f, 'c, 'f mock_server) state \<Rightarrow> bool" where
  "gone s = (id_h (self s) \<notin> set (indexes (world s)))"

text \<open>
  On server \<open>m\<close>, \<open>sn\<close> is the id of a snapshot of an index other than \<open>i\<close>. After index
  \<open>i\<close> is deleted, a call is expected to end with "not found" unless it is a
  \<^verbatim>\<open>delete_snapshot\<close> of such a snapshot.
\<close>

definition foreign_snapshot :: "'f mock_server \<Rightarrow> 'f pyval \<Rightarrow> string \<Rightarrow> bool" where
  "foreign_snapshot m i sn = (sn \<in> set (map fst (filter (\<lambda>p. snd p \<noteq> i) (snapshots m))))"

fun not_found_expected :: "'f mock_server \<Rightarrow> 'f pyval \<Rightarrow> 'f method_call \<Rightarrow> bool" where
  "not_found_expected m i (DeleteSnapshot sn) = (\<not> foreign_snapshot m i sn)"
| "not_found_expected m i _ = True"

text \<open>The index of the handle is gone and every snapshot left has its id in \<open>S\<close>.\<close>

definition gone_within :: "string set \<Rightarrow> ('f, 'c, 'f mock_server) state \<Rightarrow> bool" where
  "gone_within S s = (gone s \<and> set (map fst (snapshots (world s))) \<subseteq> S)"

section \<open>Basic facts\<close>

lemma self_post_self: "self (snd (self_post post c s)) = self s"
  by (simp add: self_post_def split: prod.splits)

lemma search_self: "self (snd (search post q k md pd sid sh s)) = self s"
proof -
  define c where "c = \<lparr>route = ''embedding-index/search'',
      payload = search_req (id_h (self s)) q k md,
      expect = Some ''IndexSearchResponse'', asynchronous = None,
      spaceId = sid, spaceHandle = sh\<rparr>"
  obtain r s' where rs: "self_post post c s = (r, s')" by force
  have "self s' = self s" using self_post_self [of post c s] rs by simp
  then show ?thesis
    using rs by (simp add: search_def Let_def c_def split: sum.splits data.splits)
qed


section \<open>Metadata in the request body\<close>

text \<open>
  \<^verbatim>\<open>insert_file\<close> replaces a dictionary or a list by its \<^verbatim>\<open>json.dumps\<close> string before it
  builds the request; the call the collaborator receives carries the string.
\<close>

lemma insert_file_serializes:
  assumes "isinstance_dict md \<or> isinstance_list md"
  shows "world (snd (insert_file dumps (recording_post r) fileId bt eid et md re sid sh s))
     = world s @ [\<lparr>route = ''embedding-index/insert'',
         payload = InsertReq \<lparr>ins_indexId = id_h (self s), ins_value = None, ins_items = None,
           ins_fileId = fileId, ins_blockType = bt, ins_externalId = eid,
           ins_externalType = et, ins_metadata = PStr (dumps md), ins_reindex = re\<rparr>,
         expect = Some ''IndexInsertResponse'', asynchronous = None,
         spaceId = sid, spaceHandle = sh\<rparr>]"
  using assms by (simp add: insert_file_def self_post_def recording_post_def)

text \<open>
  C1. Claim: every operation that sends a metadata field (insert, insert\_file, create)
  puts the serialization of structured metadata into the request body, not the structured
  value. \<^verbatim>\<open>create\<close> does not: called with the dictionary \<^verbatim>\<open>{"lang": "en"}\<close> it hands the
  collaborator a create request whose metadata is that dictionary, which is no string.
\<close>

theorem create_sends_structured_metadata:
  "snd (create (recording_post r) () ''docs'' ''text-embedding'' True None None
          (PDict [(''lang'', PStr ''en'')]) None None [])
     = [\<lparr>route = ''embedding-index/create'',
         payload = CreateReq \<lparr>cr_name = ''docs'', cr_model = ''text-embedding'', cr_upsert = True,
           cr_externalId = None, cr_externalType = None,
           cr_metadata = PDict [(''lang'', PStr ''en'')]\<rparr>,
         expect = None, asynchronous = None, spaceId = None, spaceHandle = None\<rparr>]
   \<and> PDict [(''lang'', PStr ''en'')] \<noteq> PStr (json_dumps (PDict [(''lang'', PStr ''en'')]))"
  by (simp add: create_def Let_def recording_post_def split: sum.splits data.splits)

section \<open>Asynchronous operations\<close>

text \<open>
  C2. Claim: embed and create\_snapshot post with the asynchronous flag set and decode the
  response into IndexEmbedResponse and IndexSnapshotResponse. The calls the collaborator
  receives do carry \<^verbatim>\<open>asynchronous=True\<close>, but the class they pass as \<^verbatim>\<open>expect\<close> is the
  request class, \<^verbatim>\<open>IndexEmbedRequest\<close> and \<^verbatim>\<open>IndexSnapshotRequest\<close>.
\<close>

theorem embed_expects_request_class:
  "world (snd (embed (recording_post r) sid sh s))
     = world s @ [\<lparr>route = ''embedding-index/embed'', payload = IndexEmbedRequest (id_h (self s)),
         expect = Some ''IndexEmbedRequest'', asynchronous = Some True,
         spaceId = sid, spaceHandle = sh\<rparr>]
   \<and> world (snd (create_snapshot (recording_post r) sid sh s))
     = world s @ [\<lparr>route = ''embedding-index/snapshot/create'',
         payload = IndexSnapshotRequest (id_h (self s)),
         expect = Some ''IndexSnapshotRequest'', asynchronous = Some True,
         spaceId = sid, spaceHandle = sh\<rparr>]"
  by (simp add: embed_def create_snapshot_def self_post_def recording_post_def)

section \<open>The handle returned by create\<close>

text \<open>
  C5. Whenever \<^verbatim>\<open>create\<close> returns a handle, the handle has the requested name and the
  client it was given, the collaborator answered the create request with a dictionary, and
  the handle's id is the value under \<^verbatim>\<open>"id"\<close> in that dictionary (\<^verbatim>\<open>None\<close> when the key
  is absent).
\<close>

theorem create_returns_handle:
  assumes "create post cl nm model ups eid et md sid sh w = (Inr h, w')"
  shows "name h = nm \<and> nludb h = cl
    \<and> (\<exists>res d. post cl \<lparr>route = ''embedding-index/create'',
              payload = CreateReq \<lparr>cr_name = nm, cr_model = model, cr_upsert = ups,
                cr_externalId = eid, cr_externalType = et, cr_metadata = md\<rparr>,
              expect = None, asynchronous = None, spaceId = sid, spaceHandle = sh\<rparr> w
            = (Inr res, w')
          \<and> data res = DictData d
          \<and> id_h h = (case map_of d ''id'' of Some v \<Rightarrow> v | None \<Rightarrow> PNone))"
  using assms
  by (auto simp: create_def Let_def split: prod.splits sum.splits data.splits)

theorem create_returns_handle_witness:
  "create (mock_post (\<lambda>q v. (0::int))) () ''docs'' ''text-embedding'' True None None PNone None None
      \<lparr>indexes = [], stored = [], snapshots = [], fresh = [''idx_1'']\<rparr>
    = (Inr docs_handle,
       \<lparr>indexes = [PStr ''idx_1''], stored = [], snapshots = [], fresh = []\<rparr>)
   \<and> name docs_handle = ''docs'' \<and> id_h docs_handle = PStr ''idx_1''"
proof -
  have c: "create (mock_post (\<lambda>q v. (0::int))) () ''docs'' ''text-embedding'' True None None PNone None None
      \<lparr>indexes = [], stored = [], snapshots = [], fresh = [''idx_1'']\<rparr>
    = (Inr docs_handle,
       \<lparr>indexes = [PStr ''idx_1''], stored = [], snapshots = [], fresh = []\<rparr>)"
    by (simp add: create_def mock_post_def reply_def docs_handle_def)
  from create_returns_handle [OF c] c show ?thesis by (simp add: docs_handle_def)
qed

section \<open>Failures of the transport\<close>



section \<open>The handle's own state\<close>

text \<open>
  C9. Whatever the collaborator does and whether the call succeeds or fails, the handle
  after a call of any of its methods is the handle before the call: same client, same id,
  same name.
\<close>

theorem handle_unchanged:
  "self (snd (insert_file dumps post a1 a2 a3 a4 a5 a6 a7 a8 s)) = self s
   \<and> self (snd (insert_many dumps post b1 b2 b3 b4 s)) = self s
   \<and> self (snd (insert_value dumps post c1 c2 c3 c4 c5 c6 c7 s)) = self s
   \<and> self (snd (embed post d1 d2 s)) = self s
   \<and> self (snd (create_snapshot post e1 e2 s)) = self s
   \<and> self (snd (list_snapshots post f1 f2 s)) = self s
   \<and> self (snd (list_items post g1 g2 g3 g4 g5 s)) = self s
   \<and> self (snd (delete_snapshot post h1 h2 h3 s)) = self s
   \<and> self (snd (delete post i1 i2 s)) = self s
   \<and> self (snd (search post j1 j2 j3 j4 j5 j6 s)) = self s"
  by (simp add: insert_file_def insert_many_def insert_value_def embed_def create_snapshot_def
        list_snapshots_def list_items_def delete_snapshot_def delete_def Let_def
        self_post_self search_self)

section \<open>The tabular result of search\<close>

text \<open>
  C10. With a truthy \<^verbatim>\<open>pd\<close>, a search whose post succeeded with the hits \<open>hits\<close> returns
  the frame whose rows are the pairs (score, value) of those hits, under the columns
  Score and Value: neither the metadata of a hit nor the response with its task is in the
  result, whatever \<^verbatim>\<open>includeMetadata\<close> is.
\<close>

theorem search_pd_returns_score_value_pairs:
  assumes "truthy pd"
    and "self_post post \<lparr>route = ''embedding-index/search'',
            payload = search_req (id_h (self s)) query k includeMetadata,
            expect = Some ''IndexSearchResponse'', asynchronous = None,
            spaceId = sid, spaceHandle = sh\<rparr> s = (Inr ret, s')"
    and "data ret = SearchData hits"
  shows "search post query k includeMetadata pd sid sh s
    = (Inr (DataFrame (map (\<lambda>hit. (score hit, hit_value hit)) hits) [''Score'', ''Value'']), s')"
proof -
  from assms(1) have "pd \<noteq> PBool False" by auto
  with assms(2,3) show ?thesis by (simp add: search_def Let_def)
qed

theorem search_pd_returns_score_value_pairs_witness:
  "truthy (PBool True :: int pyval)
   \<and> search (recording_post found) (Query ''a'') 2 True (PBool True) None None
         \<lparr>self = docs_handle, world = []\<rparr>
       = (Inr (DataFrame [(9, ''a''), (4, ''b'')] [''Score'', ''Value'']),
          \<lparr>self = docs_handle,
           world = [\<lparr>route = ''embedding-index/search'',
             payload = IndexSearchRequest (PStr ''idx_1'')
               \<lparr>sr_query = Some ''a'', sr_queries = None, sr_k = 2, sr_includeMetadata = True\<rparr>,
             expect = Some ''IndexSearchResponse'', asynchronous = None,
             spaceId = None, spaceHandle = None\<rparr>]\<rparr>)"
proof -
  let ?s = "\<lparr>self = docs_handle, world = []\<rparr> :: (int, unit, int post_call list) state"
  let ?c = "\<lparr>route = ''embedding-index/search'',
             payload = search_req (id_h (self ?s)) (Query ''a'') 2 True,
             expect = Some ''IndexSearchResponse'', asynchronous = None,
             spaceId = None, spaceHandle = None\<rparr>"
  have t: "truthy (PBool True :: int pyval)" by simp
  have p: "self_post (recording_post found) ?c ?s
     = (Inr \<lparr>task = Some ''task_1'', data = SearchData two_hits\<rparr>, ?s\<lparr>world := [?c]\<rparr>)"
    by (simp add: self_post_def recording_post_def found_def)
  have d: "data \<lparr>task = Some ''task_1'', data = SearchData two_hits\<rparr> = SearchData two_hits"
    by simp
  from search_pd_returns_score_value_pairs [OF t p d] t show ?thesis
    by (simp add: two_hits_def search_req_def docs_handle_def)
qed

section \<open>Single value and one-item batch\<close>

text \<open>
  C3. For every string \<open>v\<close>: \<^verbatim>\<open>insert\<close> of the single value \<open>v\<close> posts to the insert
  route a request with the value \<open>v\<close>, no batch, no external identity and no metadata;
  \<^verbatim>\<open>insert_many\<close> of the batch \<^verbatim>\<open>[v]\<close> posts to the same route, with the same index id,
  reindex flag and workspace selectors, a request whose batch is the one item with value
  \<open>v\<close> and nothing else; and the mock server gives both the same answer and is left by
  both in the same state, so the same item is stored.
\<close>

theorem insert_single_equals_one_item_batch:
  "world (snd (insert_value dumps (recording_post r) v None None PNone reindex sid sh t))
     = world t @ [\<lparr>route = ''embedding-index/insert'',
         payload = InsertReq \<lparr>ins_indexId = id_h (self t), ins_value = Some v,
           ins_items = None, ins_fileId = None, ins_blockType = None, ins_externalId = None,
           ins_externalType = None, ins_metadata = PNone, ins_reindex = reindex\<rparr>,
         expect = Some ''IndexInsertResponse'', asynchronous = None,
         spaceId = sid, spaceHandle = sh\<rparr>]
   \<and> world (snd (insert_many dumps (recording_post r) [Str v] reindex sid sh t))
     = world t @ [\<lparr>route = ''embedding-index/insert'',
         payload = InsertReq \<lparr>ins_indexId = id_h (self t), ins_value = None,
           ins_items = Some [\<lparr>item_value = Some v, item_fileId = None, item_blockId = None,
             item_spanId = None, item_externalId = None, item_externalType = None,
             item_metadata = PNone\<rparr>],
           ins_fileId = None, ins_blockType = None, ins_externalId = None,
           ins_externalType = None, ins_metadata = PNone, ins_reindex = reindex\<rparr>,
         expect = Some ''IndexInsertResponse'', asynchronous = None,
         spaceId = sid, spaceHandle = sh\<rparr>]
   \<and> insert_value dumps (mock_post sc) v None None PNone reindex sid sh s
     = insert_many dumps (mock_post sc) [Str v] reindex sid sh s"
  by (simp add: insert_value_def insert_many_def self_post_def mock_post_def recording_post_def
      metadata_to_str_def clone_for_insert_def IndexItem_of_value_def request_items_def
      ack_def reply_def)

section \<open>Search: dispatch and order of the hits\<close>










section \<open>After delete\<close>

lemma gone_not_found:
  assumes "gone s" and "sends_index_id m"
  shows "invoke d (mock_post sc) m sid sh s = (Inl not_found, s)"
proof (cases m)
  case (Search q k md pd)
  then show ?thesis using assms
    by (cases q) (simp_all add: search_def search_req_def self_post_def mock_post_def gone_def)
qed (use assms in \<open>simp_all add: as_result_def insert_file_def insert_many_def insert_value_def
    embed_def create_snapshot_def list_snapshots_def list_items_def delete_def
    self_post_def mock_post_def gone_def\<close>)

lemma delete_gone_within:
  assumes "delete (mock_post sc) sid sh s = (Inr r, s')"
  shows "gone_within {sn. foreign_snapshot (world s) (id_h (self s)) sn} s'"
  using assms
  by (auto simp: delete_def self_post_def mock_post_def gone_def gone_within_def
      foreign_snapshot_def split: if_splits)

lemma gone_delete_snapshot:
  assumes "gone_within S s" and "sn \<notin> S"
  shows "invoke d (mock_post sc) (DeleteSnapshot sn) sid sh s = (Inl not_found, s)"
  using assms
  by (auto simp: as_result_def delete_snapshot_def self_post_def mock_post_def gone_within_def)

lemma gone_within_not_found:
  assumes "gone_within S s" and "sends_index_id m"
  shows "invoke d (mock_post sc) m sid sh s = (Inl not_found, s)"
  using assms gone_not_found [of s m d sc sid sh] by (simp add: gone_within_def)

lemma gone_within_invoke:
  assumes "gone_within S s"
  shows "gone_within S (snd (invoke d (mock_post sc) m sid sh s))"
proof (cases "sends_index_id m")
  case True
  with assms show ?thesis by (simp add: gone_within_not_found)
next
  case False
  then obtain sn where "m = DeleteSnapshot sn" by (cases m) simp_all
  with assms show ?thesis
    by (auto simp: as_result_def delete_snapshot_def self_post_def mock_post_def gone_def
        gone_within_def)
qed

lemma gone_within_run:
  assumes "gone_within {sn. foreign_snapshot m0 i0 sn} s"
  shows "\<forall>(c, out) \<in> set (zip cs (fst (run d (mock_post sc) cs s))).
           not_found_expected m0 i0 (fst c) \<longrightarrow> out = Inl not_found"
  using assms
proof (induction cs arbitrary: s)
  case Nil
  then show ?case by simp
next
  case (Cons c cs)
  obtain m sid sh where c: "c = (m, sid, sh)" by (cases c) auto
  obtain out s' where i: "invoke d (mock_post sc) m sid sh s = (out, s')" by force
  have g: "gone_within {sn. foreign_snapshot m0 i0 sn} s'"
    using gone_within_invoke [OF Cons.prems, of d sc m sid sh] i by simp
  have o: "out = Inl not_found" if e: "not_found_expected m0 i0 m"
  proof (cases "sends_index_id m")
    case True
    then show ?thesis using gone_within_not_found [OF Cons.prems, of m d sc sid sh] i by simp
  next
    case False
    then obtain sn where m: "m = DeleteSnapshot sn" by (cases m) simp_all
    with e have "sn \<notin> {sn. foreign_snapshot m0 i0 sn}" by simp
    from gone_delete_snapshot [OF Cons.prems this, of d sc sid sh] i m show ?thesis by simp
  qed
  show ?case using Cons.IH [OF g] o
    by (auto simp: c i split: prod.splits)
qed

lemma own_snapshot_not_foreign:
  assumes "distinct (map fst (snapshots m))" and "(sn, i) \<in> set (snapshots m)"
  shows "\<not> foreign_snapshot m i sn"
proof
  assume "foreign_snapshot m i sn"
  then obtain j where "(sn, j) \<in> set (snapshots m)" and "j \<noteq> i"
    by (auto simp: foreign_snapshot_def)
  with assms eq_key_imp_eq_value [of "snapshots m" sn i j] show False by simp
qed

lemma run_length: "length (fst (run d p cs s)) = length cs"
proof (induction cs arbitrary: s)
  case Nil
  then show ?case by simp
next
  case (Cons c cs)
  obtain m sid sh where c: "c = (m, sid, sh)" by (cases c) auto
  obtain out s' where i: "invoke d p m sid sh s = (out, s')" by force
  obtain outs s'' where r: "run d p cs s' = (outs, s'')" by force
  from Cons.IH [of s'] r have "length outs = length cs" by simp
  then show ?case by (simp add: c i r)
qed

text \<open>
  C6, as stated: after a successful delete every operation through the same handle fails
  with "not found". On the mock server with two indexes, the handle of \<^verbatim>\<open>idx_1\<close> deletes
  its index and then deletes \<^verbatim>\<open>snap_2\<close>, a snapshot of \<^verbatim>\<open>idx_2\<close>, with success: the
  request of \<^verbatim>\<open>delete_snapshot\<close> names the snapshot only.
\<close>

theorem delete_snapshot_after_delete_succeeds:
  "fst (delete (mock_post flat_score) None None \<lparr>self = docs_handle, world = two_index_server\<rparr>)
     = Inr \<lparr>task = None, data = ObjData (Some ''IndexDeleteResponse'') []\<rparr>
   \<and> fst (delete_snapshot (mock_post flat_score) ''snap_2'' None None
        (snd (delete (mock_post flat_score) None None
           \<lparr>self = docs_handle, world = two_index_server\<rparr>)))
     = Inr \<lparr>task = None, data = ObjData (Some ''DeleteSnapshotsResponse'') []\<rparr>"
  by (simp add: delete_def delete_snapshot_def self_post_def mock_post_def ack_def reply_def
      docs_handle_def two_index_server_def)

text \<open>
  C6, amended. After a successful delete on the mock server, in every sequence of calls
  through the same handle, each call ends with the "not found" failure unless it is a
  \<^verbatim>\<open>delete_snapshot\<close> naming a snapshot of another index; the run yields one outcome for
  each call. A \<^verbatim>\<open>delete_snapshot\<close> of a snapshot of the deleted index is among the calls
  that fail, snapshot ids being distinct. The request of \<^verbatim>\<open>delete_snapshot\<close> holds the
  snapshot id and no index id.
\<close>

theorem deleted_index_not_found:
  assumes "delete (mock_post sc) sid sh s = (Inr r, s')"
  shows "length (fst (run d (mock_post sc) cs s')) = length cs
    \<and> (\<forall>(c, out) \<in> set (zip cs (fst (run d (mock_post sc) cs s'))).
          not_found_expected (world s) (id_h (self s)) (fst c) \<longrightarrow> out = Inl not_found)
    \<and> (distinct (map fst (snapshots (world s))) \<longrightarrow>
         (own, id_h (self s)) \<in> set (snapshots (world s)) \<longrightarrow>
           not_found_expected (world s) (id_h (self s)) (DeleteSnapshot own))
    \<and> world (snd (delete_snapshot (recording_post r') sn sid' sh' t))
        = world t @ [\<lparr>route = ''embedding-index/snapshot/delete'',
            payload = DeleteSnapshotsRequest sn,
            expect = Some ''DeleteSnapshotsResponse'', asynchronous = None,
            spaceId = sid', spaceHandle = sh'\<rparr>]"
proof -
  have "\<forall>(c, out) \<in> set (zip cs (fst (run d (mock_post sc) cs s'))).
          not_found_expected (world s) (id_h (self s)) (fst c) \<longrightarrow> out = Inl not_found"
    by (rule gone_within_run [OF delete_gone_within [OF assms]])
  moreover have "distinct (map fst (snapshots (world s))) \<longrightarrow>
         (own, id_h (self s)) \<in> set (snapshots (world s)) \<longrightarrow>
           not_found_expected (world s) (id_h (self s)) (DeleteSnapshot own)"
    using own_snapshot_not_foreign [of "world s" own "id_h (self s)"] by simp
  ultimately show ?thesis
    by (simp add: run_length delete_snapshot_def self_post_def recording_post_def)
qed

theorem deleted_index_not_found_witness:
  "delete (mock_post flat_score) None None \<lparr>self = docs_handle, world = two_index_server\<rparr>
     = (Inr \<lparr>task = None, data = ObjData (Some ''IndexDeleteResponse'') []\<rparr>,
        \<lparr>self = docs_handle,
         world = \<lparr>indexes = [PStr ''idx_2''], stored = [(PStr ''idx_2'', file_item ''f1'' ''b1'')],
                  snapshots = [(''snap_2'', PStr ''idx_2'')], fresh = [''id_3'']\<rparr>\<rparr>)
   \<and> fst (run no_dumps (mock_post flat_score)
         [(Search (Query ''a'') 1 False (PBool False), None, None),
          (DeleteSnapshot ''snap_1'', None, None),
          (Insert ''a'' None None PNone True, None, None),
          (Embed, None, None)]
         \<lparr>self = docs_handle,
          world = \<lparr>indexes = [PStr ''idx_2''], stored = [(PStr ''idx_2'', file_item ''f1'' ''b1'')],
                   snapshots = [(''snap_2'', PStr ''idx_2'')], fresh = [''id_3'']\<rparr>\<rparr>)
     = [Inl not_found, Inl not_found, Inl not_found, Inl not_found]"
proof -
  let ?s' = "\<lparr>self = docs_handle,
         world = \<lparr>indexes = [PStr ''idx_2''], stored = [(PStr ''idx_2'', file_item ''f1'' ''b1'')],
                  snapshots = [(''snap_2'', PStr ''idx_2'')], fresh = [''id_3'']\<rparr>\<rparr>"
  let ?cs = "[(Search (Query ''a'') 1 False (PBool False), None, None),
          (DeleteSnapshot ''snap_1'', None, None),
          (Insert ''a'' None None PNone True, None, None),
          (Embed, None, None)] :: (int method_call \<times> string option \<times> string option) list"
  have d: "delete (mock_post flat_score) None None \<lparr>self = docs_handle, world = two_index_server\<rparr>
     = (Inr \<lparr>task = None, data = ObjData (Some ''IndexDeleteResponse'') []\<rparr>, ?s')"
    by (simp add: delete_def self_post_def mock_post_def ack_def reply_def
      docs_handle_def two_index_server_def)
  have own: "\<not> foreign_snapshot two_index_server (PStr ''idx_1'') ''snap_1''"
    by (simp add: foreign_snapshot_def two_index_server_def)
  obtain o1 o2 o3 o4 where outs:
    "fst (run no_dumps (mock_post flat_score) ?cs ?s') = [o1, o2, o3, o4]"
    using run_length [of no_dumps "mock_post flat_score" ?cs ?s']
    by (auto simp: length_Suc_conv)
  from deleted_index_not_found [OF d, of no_dumps ?cs, THEN conjunct2, THEN conjunct1] outs own
  have "o1 = Inl not_found \<and> o2 = Inl not_found \<and> o3 = Inl not_found \<and> o4 = Inl not_found"
    by (simp add: docs_handle_def)
  with d outs show ?thesis by simp
qed

section \<open>Filtering of listed items\<close>

lemma agrees_iff: "agrees a y = (\<forall>x. a = Some x \<longrightarrow> y = Some x)"
  by (cases a) simp_all

text \<open>
  C8. The request of \<^verbatim>\<open>list_items\<close> holds the index id and the three identifiers exactly
  as given (an identifier not given is \<^verbatim>\<open>None\<close>); and when the mock server answers, every
  item of the answer has the file id, the block id and the span id that were given.
\<close>

theorem list_items_conjunctive_filter:
  "world (snd (list_items (recording_post r) fileId blockId spanId sid sh t))
     = world t @ [\<lparr>route = ''embedding-index/listItems'',
         payload = ListItemsRequest (id_h (self t))
           \<lparr>li_fileId = fileId, li_blockId = blockId, li_spanId = spanId\<rparr>,
         expect = Some ''ListItemsResponse'', asynchronous = None,
         spaceId = sid, spaceHandle = sh\<rparr>]
   \<and> (\<forall>res s'. list_items (mock_post sc) fileId blockId spanId sid sh s = (Inr res, s') \<longrightarrow>
        (\<exists>its. data res = ItemsData its
           \<and> (\<forall>it \<in> set its.
                 (\<forall>x. fileId = Some x \<longrightarrow> item_fileId it = Some x)
               \<and> (\<forall>x. blockId = Some x \<longrightarrow> item_blockId it = Some x)
               \<and> (\<forall>x. spanId = Some x \<longrightarrow> item_spanId it = Some x))))"
proof -
  have "world (snd (list_items (recording_post r) fileId blockId spanId sid sh t))
     = world t @ [\<lparr>route = ''embedding-index/listItems'',
         payload = ListItemsRequest (id_h (self t))
           \<lparr>li_fileId = fileId, li_blockId = blockId, li_spanId = spanId\<rparr>,
         expect = Some ''ListItemsResponse'', asynchronous = None,
         spaceId = sid, spaceHandle = sh\<rparr>]"
    by (simp add: list_items_def self_post_def recording_post_def)
  moreover have "\<exists>its. data res = ItemsData its
           \<and> (\<forall>it \<in> set its.
                 (\<forall>x. fileId = Some x \<longrightarrow> item_fileId it = Some x)
               \<and> (\<forall>x. blockId = Some x \<longrightarrow> item_blockId it = Some x)
               \<and> (\<forall>x. spanId = Some x \<longrightarrow> item_spanId it = Some x))"
    if "list_items (mock_post sc) fileId blockId spanId sid sh s = (Inr res, s')" for res s'
    using that
    by (auto simp: list_items_def self_post_def mock_post_def reply_def matches_def agrees_iff
        split: if_splits)
  ultimately show ?thesis by blast
qed

theorem list_items_conjunctive_filter_witness:
  "list_items (mock_post flat_score) (Some ''f1'') (Some ''b1'') None None None
      \<lparr>self = docs_handle, world = two_index_server\<rparr>
    = (Inr \<lparr>task = None, data = ItemsData [file_item ''f1'' ''b1'']\<rparr>,
       \<lparr>self = docs_handle, world = two_index_server\<rparr>)
   \<and> item_fileId (file_item ''f1'' ''b1'') = Some ''f1''
   \<and> item_blockId (file_item ''f1'' ''b1'') = Some ''b1''"
proof -
  have l: "list_items (mock_post flat_score) (Some ''f1'') (Some ''b1'') None None None
      \<lparr>self = docs_handle, world = two_index_server\<rparr>
    = (Inr \<lparr>task = None, data = ItemsData [file_item ''f1'' ''b1'']\<rparr>,
       \<lparr>self = docs_handle, world = two_index_server\<rparr>)"
    by (simp add: list_items_def self_post_def mock_post_def reply_def matches_def
        docs_handle_def two_index_server_def file_item_def)
  from list_items_conjunctive_filter [of _ "Some ''f1''" "Some ''b1''" None None None _
      flat_score "\<lparr>self = docs_handle, world = two_index_server\<rparr>"] l
  show ?thesis by auto
qed

end
